theory Spec2Isabelle
  imports Complex_Main
begin

section \<open>Invoice ledger engine of the invoicer backend\<close>

text \<open>
  A shallow embedding of the invoice routes of the TypeScript backend
  (\<^verbatim>\<open>src/unnamed/part_006\<close>, the Express router for invoices) over the tables of
  the Drizzle schema (\<^verbatim>\<open>src/unnamed/part_008\<close>) and the transaction helper of the
  database module (\<^verbatim>\<open>src/unnamed/part_007\<close>).

  Conventions of the embedding.
  \<^item> A table is the list of its rows, in insertion order. A \<^verbatim>\<open>select ... where\<close> is
    a \<open>filter\<close>, an \<^verbatim>\<open>update ... where\<close> a \<open>map\<close> that rewrites the matching rows,
    a \<^verbatim>\<open>delete ... where\<close> a \<open>filter\<close> on the negated condition.
  \<^item> A \<^verbatim>\<open>decimal(p, 2)\<close> column is an \<open>int\<close>: the number of hundredths it holds.
    Reading it with \<^verbatim>\<open>Number(...)\<close> gives the rational \<open>c / 100\<close>; writing a number
    with \<^verbatim>\<open>String(...)\<close> makes PostgreSQL coerce the literal to scale 2, rounding
    half away from zero (\<open>toDecimal2\<close>).
  \<^item> A JavaScript number is an exact rational: the binary rounding error of IEEE
    doubles and the precision bound of the columns (12 digits) are not modelled.
    The numbers of a request body are JSON numbers.
  \<^item> A \<^verbatim>\<open>uuid\<close> is a natural number; a row inserted with \<^verbatim>\<open>defaultRandom()\<close>
    takes the next unused number, kept in the field \<open>nextUuid\<close> of the database.
  \<^item> \<^verbatim>\<open>new Date()\<close> is the argument \<open>now\<close> of a handler; a nullable timestamp is
    an \<open>option\<close>.
  \<^item> A handler returns its response together with the database it leaves behind,
    also when it fails: what a failed request has committed is part of the model.
  \<^item> Columns that carry no engine logic (dates, currency, notes, terms, footer,
    payment method and reference) are left out of the rows.
\<close>

subsection \<open>Tables\<close>

type_synonym uuid = nat
type_synonym timestamp = nat
type_synonym decimal2 = int

datatype InvoiceStatus = Draft | Sent | Viewed | Paid | Overdue | Cancelled

datatype DiscountType = Percentage | Fixed

record Invoice =
  inv_id :: uuid
  userId :: uuid
  clientId :: uuid
  invoiceNumber :: string
  status :: InvoiceStatus
  subtotal :: decimal2
  taxRate :: decimal2
  taxAmount :: decimal2
  discountType :: "DiscountType option"
  discountValue :: decimal2
  discountAmount :: decimal2
  total :: decimal2
  amountPaid :: decimal2
  balanceDue :: decimal2
  sentAt :: "timestamp option"
  viewedAt :: "timestamp option"
  paidAt :: "timestamp option"
  updatedAt :: timestamp

record InvoiceItem =
  item_id :: uuid
  item_invoiceId :: uuid
  description :: string
  quantity :: decimal2
  rate :: decimal2
  amount :: decimal2
  sortOrder :: nat

record Payment =
  payment_id :: uuid
  payment_invoiceId :: uuid
  payment_amount :: decimal2

record InvoiceSequence =
  seq_userId :: uuid
  prefix :: string
  nextNumber :: int
  padding :: "int option"

record Db =
  clients :: "uuid list"
  invoices :: "Invoice list"
  invoiceItems :: "InvoiceItem list"
  payments :: "Payment list"
  invoiceSequences :: "InvoiceSequence list"
  nextUuid :: uuid

text \<open>
  The errors a handler answers with: the two application errors the routes throw,
  the 400 of the \<^verbatim>\<open>validate\<close> middleware, and a constraint violation raised by
  the database inside a statement.
\<close>

datatype Error = NotFoundError | ValidationError | BadRequest | DatabaseError

subsection \<open>Numbers and columns\<close>

definition Number :: "decimal2 \<Rightarrow> rat" where
  "Number c = of_int c / 100"

definition toDecimal2 :: "rat \<Rightarrow> decimal2" where
  "toDecimal2 x =
     (if 0 \<le> x then \<lfloor>x * 100 + 1 / 2\<rfloor> else - \<lfloor>- x * 100 + 1 / 2\<rfloor>)"

definition digit :: "nat \<Rightarrow> char" where
  "digit d = ''0123456789'' ! d"

fun nat_digits :: "nat \<Rightarrow> string" where
  "nat_digits n =
     (if n < 10 then [digit n] else nat_digits (n div 10) @ [digit (n mod 10)])"

declare nat_digits.simps [simp del]

definition String_of_int :: "int \<Rightarrow> string" where
  "String_of_int n =
     (if n < 0 then CHR ''-'' # nat_digits (nat (- n)) else nat_digits (nat n))"

definition padStart :: "string \<Rightarrow> int \<Rightarrow> char \<Rightarrow> string" where
  "padStart s targetLength c = replicate (nat targetLength - length s) c @ s"

subsection \<open>Invoice number allocation\<close>

text \<open>
  \<^verbatim>\<open>generateInvoiceNumber(userId)\<close>: every statement runs on the pool connection
  \<^verbatim>\<open>db\<close>, so each is committed as it runs. The sequence row is inserted with the
  column defaults when the select finds none; the update adds one to \<open>nextNumber\<close>
  and returns the value before the increment. Reading \<^verbatim>\<open>result[0]\<close> of an empty
  result would throw; the model answers with an error there.
\<close>

definition defaultSequence :: "uuid \<Rightarrow> InvoiceSequence" where
  "defaultSequence u =
     \<lparr>seq_userId = u, prefix = ''INV'', nextNumber = 1, padding = Some 4\<rparr>"

definition generateInvoiceNumber :: "uuid \<Rightarrow> Db \<Rightarrow> (Error + string) \<times> Db" where
  "generateInvoiceNumber u db =
     (let existing = filter (\<lambda>s. seq_userId s = u) (invoiceSequences db);
          db1 = (if existing = []
                 then db\<lparr>invoiceSequences := invoiceSequences db @ [defaultSequence u]\<rparr>
                 else db);
          db2 = db1\<lparr>invoiceSequences :=
                  map (\<lambda>s. if seq_userId s = u then s\<lparr>nextNumber := nextNumber s + 1\<rparr> else s)
                    (invoiceSequences db1)\<rparr>;
          result = map (\<lambda>s. (prefix s, nextNumber s - 1, padding s))
                     (filter (\<lambda>s. seq_userId s = u) (invoiceSequences db2))
      in case result of
           [] \<Rightarrow> (Inl DatabaseError, db2)
         | (p, n, pad) # _ \<Rightarrow>
             (Inr (p @ padStart (String_of_int n) (case pad of None \<Rightarrow> 4 | Some k \<Rightarrow> k) CHR ''0''),
              db2))"

subsection \<open>Totals\<close>

text \<open>
  \<^verbatim>\<open>calculateInvoiceTotals(invoiceId)\<close>. The arithmetic between the two reads and the
  write is \<open>computeTotals\<close>: it works on JavaScript numbers and rounds nowhere. The
  write stores each number in its \<^verbatim>\<open>decimal(12, 2)\<close> column. \<open>amountPaid\<close> is read
  and never written.
\<close>

record Totals =
  t_subtotal :: rat
  t_discountAmount :: rat
  t_taxAmount :: rat
  t_total :: rat
  t_balanceDue :: rat

definition computeTotals ::
  "rat \<Rightarrow> rat \<Rightarrow> DiscountType option \<Rightarrow> rat \<Rightarrow> rat \<Rightarrow> Totals" where
  "computeTotals subtotal' taxRate' discountType' discountValue' amountPaid' =
     (let discountAmount' =
            (case discountType' of
               Some Percentage \<Rightarrow> subtotal' * (discountValue' / 100)
             | Some Fixed \<Rightarrow> discountValue'
             | None \<Rightarrow> 0);
          taxAmount' = (subtotal' - discountAmount') * (taxRate' / 100);
          total' = subtotal' - discountAmount' + taxAmount';
          balanceDue' = total' - amountPaid'
      in \<lparr>t_subtotal = subtotal', t_discountAmount = discountAmount',
          t_taxAmount = taxAmount', t_total = total', t_balanceDue = balanceDue'\<rparr>)"

definition itemsOf :: "Db \<Rightarrow> uuid \<Rightarrow> InvoiceItem list" where
  "itemsOf db invoiceId = filter (\<lambda>i. item_invoiceId i = invoiceId) (invoiceItems db)"

definition itemsSubtotal :: "Db \<Rightarrow> uuid \<Rightarrow> rat" where
  "itemsSubtotal db invoiceId = Number (sum_list (map amount (itemsOf db invoiceId)))"

definition storeTotals :: "Totals \<Rightarrow> timestamp \<Rightarrow> Invoice \<Rightarrow> Invoice" where
  "storeTotals t now v =
     v\<lparr>subtotal := toDecimal2 (t_subtotal t),
       taxAmount := toDecimal2 (t_taxAmount t),
       discountAmount := toDecimal2 (t_discountAmount t),
       total := toDecimal2 (t_total t),
       balanceDue := toDecimal2 (t_balanceDue t),
       updatedAt := now\<rparr>"

definition calculateInvoiceTotals :: "uuid \<Rightarrow> timestamp \<Rightarrow> Db \<Rightarrow> Db" where
  "calculateInvoiceTotals invoiceId now db =
     (case filter (\<lambda>v. inv_id v = invoiceId) (invoices db) of
        [] \<Rightarrow> db
      | invoice # _ \<Rightarrow>
          (let t = computeTotals (itemsSubtotal db invoiceId) (Number (taxRate invoice))
                     (discountType invoice) (Number (discountValue invoice))
                     (Number (amountPaid invoice))
           in db\<lparr>invoices :=
                 map (\<lambda>v. if inv_id v = invoiceId then storeTotals t now v else v)
                   (invoices db)\<rparr>))"

subsection \<open>Transactions and the shared parts of the handlers\<close>

text \<open>
  \<^verbatim>\<open>withTransaction(callback)\<close>: the callback's writes are committed when it
  returns and discarded when a statement in it throws.
\<close>

definition withTransaction ::
  "(Db \<Rightarrow> Error + 'a \<times> Db) \<Rightarrow> Db \<Rightarrow> (Error + 'a) \<times> Db" where
  "withTransaction callback db =
     (case callback db of
        Inl e \<Rightarrow> (Inl e, db)
      | Inr (r, tx) \<Rightarrow> (Inr r, tx))"

text \<open>
  The select every handler starts with:
  \<^verbatim>\<open>where(and(eq(invoices.id, invoiceId), eq(invoices.userId, userId))).limit(1)\<close>.
\<close>

definition findInvoice :: "Db \<Rightarrow> uuid \<Rightarrow> uuid \<Rightarrow> Invoice list" where
  "findInvoice db invoiceId userId' =
     take 1 (filter (\<lambda>v. inv_id v = invoiceId \<and> userId v = userId') (invoices db))"

definition updateInvoices :: "uuid \<Rightarrow> (Invoice \<Rightarrow> Invoice) \<Rightarrow> Db \<Rightarrow> Db" where
  "updateInvoices invoiceId f db =
     db\<lparr>invoices := map (\<lambda>v. if inv_id v = invoiceId then f v else v) (invoices db)\<rparr>"

text \<open>
  A line item of a request body. Each field may be missing. The handlers default
  the quantity with \<^verbatim>\<open>item.quantity || 1\<close> (so a quantity of zero becomes one) and
  the rate with \<^verbatim>\<open>item.rate || 0\<close>. The column \<open>description\<close> is \<^verbatim>\<open>notNull\<close>: the
  insert of an item without one fails.
\<close>

record ItemInput =
  in_description :: "string option"
  in_quantity :: "rat option"
  in_rate :: "rat option"

fun insertItems :: "uuid \<Rightarrow> ItemInput list \<Rightarrow> nat \<Rightarrow> Db \<Rightarrow> Error + Db" where
  "insertItems invoiceId [] i tx = Inr tx"
| "insertItems invoiceId (item # rest) i tx =
     (let quantity' = (case in_quantity item of None \<Rightarrow> 1 | Some q \<Rightarrow> if q = 0 then 1 else q);
          rate' = (case in_rate item of None \<Rightarrow> 0 | Some r \<Rightarrow> r);
          amount' = quantity' * rate'
      in case in_description item of
           None \<Rightarrow> Inl DatabaseError
         | Some d \<Rightarrow>
             insertItems invoiceId rest (Suc i)
               (tx\<lparr>invoiceItems := invoiceItems tx @
                     [\<lparr>item_id = nextUuid tx, item_invoiceId = invoiceId, description = d,
                       quantity = toDecimal2 quantity', rate = toDecimal2 rate',
                       amount = toDecimal2 amount', sortOrder = i\<rparr>],
                   nextUuid := Suc (nextUuid tx)\<rparr>))"

definition optionalFloat :: "rat option \<Rightarrow> rat \<Rightarrow> bool" where
  "optionalFloat x lo = (case x of None \<Rightarrow> True | Some r \<Rightarrow> lo \<le> r)"

definition validItem :: "ItemInput \<Rightarrow> bool" where
  "validItem item =
     ((case in_description item of None \<Rightarrow> True | Some d \<Rightarrow> d \<noteq> []) \<and>
      optionalFloat (in_quantity item) 0 \<and> optionalFloat (in_rate item) 0)"

definition validTaxRate :: "rat option \<Rightarrow> bool" where
  "validTaxRate x = (case x of None \<Rightarrow> True | Some r \<Rightarrow> 0 \<le> r \<and> r \<le> 100)"

subsection \<open>Creating an invoice\<close>

text \<open>
  \<^verbatim>\<open>router.post("/")\<close>. The callback of the transaction first calls
  \<open>generateInvoiceNumber\<close>, which writes through the pool connection and not
  through \<^verbatim>\<open>tx\<close>: the increment is committed before the first insert and stays
  when the transaction rolls back. The insert of the invoice fails on an unknown
  client (foreign key, \<^verbatim>\<open>onDelete: restrict\<close>) and on a number the user already
  has (the unique index on user and number). \<open>calculateInvoiceTotals\<close> runs once
  the transaction has committed (the source: "outside transaction for
  simplicity"). The response is the invoice row read back.
\<close>

record CreateInput =
  c_client_id :: uuid
  c_tax_rate :: "rat option"
  c_discount_type :: "DiscountType option"
  c_discount_value :: "rat option"
  c_items :: "ItemInput list option"

definition validCreate :: "CreateInput \<Rightarrow> bool" where
  "validCreate body =
     (validTaxRate (c_tax_rate body) \<and> optionalFloat (c_discount_value body) 0 \<and>
      list_all validItem (case c_items body of None \<Rightarrow> [] | Some xs \<Rightarrow> xs))"

definition insertInvoice ::
  "uuid \<Rightarrow> CreateInput \<Rightarrow> string \<Rightarrow> timestamp \<Rightarrow> Db \<Rightarrow> Error + Invoice \<times> Db" where
  "insertInvoice userId' body invoiceNumber' now tx =
     (if c_client_id body \<notin> set (clients tx) then Inl DatabaseError
      else if filter (\<lambda>v. userId v = userId' \<and> invoiceNumber v = invoiceNumber') (invoices tx) \<noteq> []
      then Inl DatabaseError
      else
        (let invoice =
               \<lparr>inv_id = nextUuid tx, userId = userId', clientId = c_client_id body,
                invoiceNumber = invoiceNumber', status = Draft, subtotal = 0,
                taxRate = toDecimal2 (case c_tax_rate body of None \<Rightarrow> 0 | Some r \<Rightarrow> r),
                taxAmount = 0, discountType = c_discount_type body,
                discountValue = toDecimal2 (case c_discount_value body of None \<Rightarrow> 0 | Some x \<Rightarrow> x),
                discountAmount = 0, total = 0, amountPaid = 0, balanceDue = 0,
                sentAt = None, viewedAt = None, paidAt = None, updatedAt = now\<rparr>
         in Inr (invoice, tx\<lparr>invoices := invoices tx @ [invoice], nextUuid := Suc (nextUuid tx)\<rparr>)))"

definition createInvoiceTx ::
  "uuid \<Rightarrow> CreateInput \<Rightarrow> string \<Rightarrow> timestamp \<Rightarrow> Db \<Rightarrow> Error + Invoice \<times> Db" where
  "createInvoiceTx userId' body invoiceNumber' now tx =
     (case insertInvoice userId' body invoiceNumber' now tx of
        Inl e \<Rightarrow> Inl e
      | Inr (invoice, tx1) \<Rightarrow>
          (case insertItems (inv_id invoice) (case c_items body of None \<Rightarrow> [] | Some xs \<Rightarrow> xs) 0 tx1 of
             Inl e \<Rightarrow> Inl e
           | Inr tx2 \<Rightarrow> Inr (invoice, tx2)))"

definition createInvoiceTransaction ::
  "uuid \<Rightarrow> CreateInput \<Rightarrow> timestamp \<Rightarrow> Db \<Rightarrow> (Error + Invoice) \<times> Db" where
  "createInvoiceTransaction userId' body now db =
     (case generateInvoiceNumber userId' db of
        (Inl e, db1) \<Rightarrow> (Inl e, db1)
      | (Inr invoiceNumber', db1) \<Rightarrow>
          withTransaction (createInvoiceTx userId' body invoiceNumber' now) db1)"

definition createInvoice ::
  "uuid \<Rightarrow> CreateInput \<Rightarrow> timestamp \<Rightarrow> Db \<Rightarrow> (Error + Invoice list) \<times> Db" where
  "createInvoice userId' body now db =
     (if \<not> validCreate body then (Inl BadRequest, db)
      else
        (case createInvoiceTransaction userId' body now db of
           (Inl e, db1) \<Rightarrow> (Inl e, db1)
         | (Inr invoice, db1) \<Rightarrow>
             (let db2 = calculateInvoiceTotals (inv_id invoice) now db1
              in (Inr (take 1 (filter (\<lambda>v. inv_id v = inv_id invoice) (invoices db2))), db2))))"

subsection \<open>Updating an invoice\<close>

text \<open>
  \<^verbatim>\<open>router.put("/:id")\<close>. A field missing from the body keeps the stored value; a
  \<^verbatim>\<open>discount_type\<close> of \<^verbatim>\<open>null\<close> is a value of its own (\<open>Some None\<close>). The items of
  the body are not validated by this route. The update of the row and the
  replacement of the items are one transaction; \<open>calculateInvoiceTotals\<close> runs
  after it has committed.
\<close>

record UpdateInput =
  u_client_id :: "uuid option"
  u_tax_rate :: "rat option"
  u_discount_type :: "DiscountType option option"
  u_discount_value :: "rat option"
  u_items :: "ItemInput list option"

definition validUpdate :: "UpdateInput \<Rightarrow> bool" where
  "validUpdate body =
     (validTaxRate (u_tax_rate body) \<and> optionalFloat (u_discount_value body) 0)"

definition updateInvoiceTx ::
  "uuid \<Rightarrow> Invoice \<Rightarrow> UpdateInput \<Rightarrow> timestamp \<Rightarrow> Db \<Rightarrow> Error + unit \<times> Db" where
  "updateInvoiceTx invoiceId existing body now tx =
     (let client_id = (case u_client_id body of None \<Rightarrow> clientId existing | Some c \<Rightarrow> c)
      in if client_id \<noteq> clientId existing \<and> client_id \<notin> set (clients tx) then Inl DatabaseError
         else
           (let tx1 = updateInvoices invoiceId
                        (\<lambda>v. v\<lparr>clientId := client_id,
                                taxRate := (case u_tax_rate body of
                                              None \<Rightarrow> taxRate existing | Some r \<Rightarrow> toDecimal2 r),
                                discountType := (case u_discount_type body of
                                                   None \<Rightarrow> discountType existing | Some d \<Rightarrow> d),
                                discountValue := (case u_discount_value body of
                                                    None \<Rightarrow> discountValue existing
                                                  | Some x \<Rightarrow> toDecimal2 x),
                                updatedAt := now\<rparr>) tx
            in case u_items body of
                 None \<Rightarrow> Inr ((), tx1)
               | Some items \<Rightarrow>
                   (case insertItems invoiceId items 0
                           (tx1\<lparr>invoiceItems :=
                                  filter (\<lambda>i. item_invoiceId i \<noteq> invoiceId) (invoiceItems tx1)\<rparr>) of
                      Inl e \<Rightarrow> Inl e
                    | Inr tx2 \<Rightarrow> Inr ((), tx2))))"

definition updateInvoice ::
  "uuid \<Rightarrow> uuid \<Rightarrow> UpdateInput \<Rightarrow> timestamp \<Rightarrow> Db \<Rightarrow> (Error + Invoice list) \<times> Db" where
  "updateInvoice userId' invoiceId body now db =
     (if \<not> validUpdate body then (Inl BadRequest, db)
      else
        (case findInvoice db invoiceId userId' of
           [] \<Rightarrow> (Inl NotFoundError, db)
         | existing # _ \<Rightarrow>
             if status existing = Paid \<or> status existing = Cancelled
             then (Inl ValidationError, db)
             else
               (case withTransaction (updateInvoiceTx invoiceId existing body now) db of
                  (Inl e, db1) \<Rightarrow> (Inl e, db1)
                | (Inr _, db1) \<Rightarrow>
                    (let db2 = calculateInvoiceTotals invoiceId now db1
                     in (Inr (take 1 (filter (\<lambda>v. inv_id v = invoiceId) (invoices db2))), db2)))))"

subsection \<open>Setting the status\<close>

text \<open>
  \<^verbatim>\<open>router.patch("/:id/status")\<close>. The validator admits each of the six statuses;
  the handler compares the requested status with nothing but the three
  timestamps of the stored row.
\<close>

definition statusFields :: "Invoice \<Rightarrow> InvoiceStatus \<Rightarrow> timestamp \<Rightarrow> Invoice \<Rightarrow> Invoice" where
  "statusFields existing status' now v =
     (let v1 = v\<lparr>status := status', updatedAt := now\<rparr>;
          v2 = (if status' = Sent \<and> sentAt existing = None then v1\<lparr>sentAt := Some now\<rparr> else v1);
          v3 = (if status' = Viewed \<and> viewedAt existing = None
                then v2\<lparr>viewedAt := Some now\<rparr> else v2)
      in if status' = Paid \<and> paidAt existing = None
         then v3\<lparr>paidAt := Some now, amountPaid := total existing, balanceDue := 0\<rparr>
         else v3)"

definition setStatus ::
  "uuid \<Rightarrow> uuid \<Rightarrow> InvoiceStatus \<Rightarrow> timestamp \<Rightarrow> Db \<Rightarrow> (Error + Invoice list) \<times> Db" where
  "setStatus userId' invoiceId status' now db =
     (case findInvoice db invoiceId userId' of
        [] \<Rightarrow> (Inl NotFoundError, db)
      | existing # _ \<Rightarrow>
          (let db1 = db\<lparr>invoices :=
                        map (\<lambda>v. if inv_id v = invoiceId \<and> userId v = userId'
                                  then statusFields existing status' now v else v)
                          (invoices db)\<rparr>
           in (Inr (take 1 (filter (\<lambda>v. inv_id v = invoiceId \<and> userId v = userId')
                              (invoices db1))), db1)))"

subsection \<open>Payments\<close>

text \<open>
  \<^verbatim>\<open>router.post("/:id/payments")\<close> and
  \<^verbatim>\<open>router.delete("/:invoiceId/payments/:paymentId")\<close>. Both read the invoice
  before the transaction and compute the new fields from that row.
\<close>

definition addPaymentTx ::
  "uuid \<Rightarrow> Invoice \<Rightarrow> rat \<Rightarrow> timestamp \<Rightarrow> Db \<Rightarrow> Error + Payment \<times> Db" where
  "addPaymentTx invoiceId invoice amount' now tx =
     (let payment = \<lparr>payment_id = nextUuid tx, payment_invoiceId = invoiceId,
                      payment_amount = toDecimal2 amount'\<rparr>;
          tx1 = tx\<lparr>payments := payments tx @ [payment], nextUuid := Suc (nextUuid tx)\<rparr>;
          newAmountPaid = Number (amountPaid invoice) + amount';
          newBalanceDue = Number (total invoice) - newAmountPaid;
          newStatus = (if newBalanceDue \<le> 0 then Paid else status invoice)
      in Inr (payment,
              updateInvoices invoiceId
                (\<lambda>v. v\<lparr>amountPaid := toDecimal2 newAmountPaid,
                        balanceDue := toDecimal2 (max 0 newBalanceDue),
                        status := newStatus,
                        paidAt := (if newStatus = Paid then Some now else paidAt invoice),
                        updatedAt := now\<rparr>) tx1))"

definition addPayment ::
  "uuid \<Rightarrow> uuid \<Rightarrow> rat \<Rightarrow> timestamp \<Rightarrow> Db \<Rightarrow> (Error + Payment) \<times> Db" where
  "addPayment userId' invoiceId amount' now db =
     (if amount' < 1 / 100 then (Inl BadRequest, db)
      else
        (case findInvoice db invoiceId userId' of
           [] \<Rightarrow> (Inl NotFoundError, db)
         | invoice # _ \<Rightarrow>
             if status invoice = Cancelled then (Inl ValidationError, db)
             else withTransaction (addPaymentTx invoiceId invoice amount' now) db))"

definition deletePaymentTx ::
  "uuid \<Rightarrow> uuid \<Rightarrow> Invoice \<Rightarrow> Payment \<Rightarrow> timestamp \<Rightarrow> Db \<Rightarrow> Error + unit \<times> Db" where
  "deletePaymentTx invoiceId paymentId invoice payment now tx =
     (let tx1 = tx\<lparr>payments := filter (\<lambda>p. payment_id p \<noteq> paymentId) (payments tx)\<rparr>;
          newAmountPaid = Number (amountPaid invoice) - Number (payment_amount payment);
          newBalanceDue = Number (total invoice) - newAmountPaid;
          newStatus = (if status invoice = Paid \<and> 0 < newBalanceDue
                       then (if sentAt invoice \<noteq> None then Sent else Draft)
                       else status invoice)
      in Inr ((),
              updateInvoices invoiceId
                (\<lambda>v. v\<lparr>amountPaid := toDecimal2 (max 0 newAmountPaid),
                        balanceDue := toDecimal2 newBalanceDue,
                        status := newStatus,
                        paidAt := (if newStatus \<noteq> Paid then None else paidAt invoice),
                        updatedAt := now\<rparr>) tx1))"

definition deletePayment ::
  "uuid \<Rightarrow> uuid \<Rightarrow> uuid \<Rightarrow> timestamp \<Rightarrow> Db \<Rightarrow> (Error + unit) \<times> Db" where
  "deletePayment userId' invoiceId paymentId now db =
     (case findInvoice db invoiceId userId' of
        [] \<Rightarrow> (Inl NotFoundError, db)
      | invoice # _ \<Rightarrow>
          (case take 1 (filter (\<lambda>p. payment_id p = paymentId \<and> payment_invoiceId p = invoiceId)
                          (payments db)) of
             [] \<Rightarrow> (Inl NotFoundError, db)
           | payment # _ \<Rightarrow>
               withTransaction (deletePaymentTx invoiceId paymentId invoice payment now) db))"

subsection \<open>Payments of an invoice\<close>




subsection \<open>Sample requests and databases\<close>

text \<open>
  A database with one client (7) and nothing else; user 1 owns no sequence row
  yet. Every other database below is reached from it through the handlers alone.
\<close>

definition emptyDb :: Db where
  "emptyDb = \<lparr>clients = [7], invoices = [], invoiceItems = [], payments = [],
              invoiceSequences = [], nextUuid = 100\<rparr>"

text \<open>Request bodies.\<close>

definition oneItem :: "rat \<Rightarrow> ItemInput list" where
  "oneItem r = [\<lparr>in_description = Some ''work'', in_quantity = Some 1, in_rate = Some r\<rparr>]"

definition undescribedItem :: "ItemInput list" where
  "undescribedItem = [\<lparr>in_description = None, in_quantity = Some 1, in_rate = Some 100\<rparr>]"

definition plainInvoice :: "rat \<Rightarrow> CreateInput" where
  "plainInvoice r =
     \<lparr>c_client_id = 7, c_tax_rate = None, c_discount_type = None,
      c_discount_value = None, c_items = Some (oneItem r)\<rparr>"

definition undescribedInvoice :: CreateInput where
  "undescribedInvoice =
     \<lparr>c_client_id = 7, c_tax_rate = None, c_discount_type = None,
      c_discount_value = None, c_items = Some undescribedItem\<rparr>"

definition discountedInvoice :: CreateInput where
  "discountedInvoice =
     \<lparr>c_client_id = 7, c_tax_rate = Some 5, c_discount_type = Some Percentage,
      c_discount_value = Some 5, c_items = Some (oneItem (999 / 100))\<rparr>"




definition itemsOnly :: "ItemInput list \<Rightarrow> UpdateInput" where
  "itemsOnly xs =
     \<lparr>u_client_id = None, u_tax_rate = None, u_discount_type = None,
      u_discount_value = None, u_items = Some xs\<rparr>"

text \<open>
  The first invoice of user 1, of 100.00 without tax or discount: the database
  after its creation and the row it holds (invoice 100, item 101).
\<close>

definition db100 :: Db where
  "db100 = snd (createInvoice 1 (plainInvoice 100) 1 emptyDb)"



definition dbCancelled :: Db where
  "dbCancelled = snd (setStatus 1 100 Cancelled 2 db100)"



definition dbPartPaid :: Db where
  "dbPartPaid = snd (addPayment 1 100 50 2 db100)"

definition dbPaid :: Db where
  "dbPaid = snd (addPayment 1 100 100 2 db100)"

definition dbOverpaid :: Db where
  "dbOverpaid = snd (addPayment 1 100 50 3 (snd (addPayment 1 100 150 2 db100)))"

text \<open>Other first invoices of user 1.\<close>

definition dbDiscounted :: Db where
  "dbDiscounted = snd (createInvoice 1 discountedInvoice 1 emptyDb)"






section \<open>Properties\<close>

subsection \<open>Columns and rows\<close>

lemma toDecimal2_Number [simp]: "toDecimal2 (Number k) = k"
proof (cases "0 \<le> k")
  case True
  have "\<lfloor>(of_int k :: rat) + 1 / 2\<rfloor> = k" by linarith
  with True show ?thesis by (simp add: toDecimal2_def Number_def)
next
  case False
  have "\<lfloor>(of_int (- k) :: rat) + 1 / 2\<rfloor> = - k" by linarith
  with False show ?thesis by (simp add: toDecimal2_def Number_def)
qed

lemma Number_arith [simp]:
  "Number 0 = 0" "Number a + Number b = Number (a + b)" "Number a - Number b = Number (a - b)"
  by (simp_all add: Number_def add_divide_distrib diff_divide_distrib)

lemma Number_sign [simp]:
  "(0 < Number a) = (0 < a)" "(Number a \<le> 0) = (a \<le> 0)" "(0 \<le> Number a) = (0 \<le> a)"
  by (simp_all add: Number_def)


lemma toDecimal2_zero [simp]: "toDecimal2 0 = 0"
  using toDecimal2_Number [of 0] by simp







subsection \<open>Payment round trip\<close>



subsection \<open>Balance due after a payment is deleted\<close>

text \<open>
  Claim C1, at an input where the code departs from it. An invoice of 100.00
  receives payments of 150.00 and 50.00 (overpayment is accepted) and the payment
  of 50.00 is deleted: the handler stores \<open>total - newAmountPaid\<close> unclamped, a
  balance due of -50.00, where \<open>max 0 (total - amountPaid)\<close> is 0. The same happens
  in \<open>calculateInvoiceTotals\<close>: after a payment of 50.00 the items are replaced by
  one of 30.00 and the stored balance due is -20.00.
\<close>

theorem balanceDue_negative_after_delete:
  "map total (invoices dbOverpaid) = [10000] \<and>
   map amountPaid (invoices dbOverpaid) = [20000] \<and>
   map payment_amount (payments dbOverpaid) = [15000, 5000] \<and>
   fst (deletePayment 1 100 103 4 dbOverpaid) = Inr () \<and>
   map total (invoices (snd (deletePayment 1 100 103 4 dbOverpaid))) = [10000] \<and>
   map amountPaid (invoices (snd (deletePayment 1 100 103 4 dbOverpaid))) = [15000] \<and>
   map balanceDue (invoices (snd (deletePayment 1 100 103 4 dbOverpaid))) = [- 5000] \<and>
   map total (invoices (snd (updateInvoice 1 100 (itemsOnly (oneItem 30)) 3 dbPartPaid))) = [3000] \<and>
   map amountPaid (invoices (snd (updateInvoice 1 100 (itemsOnly (oneItem 30)) 3 dbPartPaid))) =
     [5000] \<and>
   map balanceDue (invoices (snd (updateInvoice 1 100 (itemsOnly (oneItem 30)) 3 dbPartPaid))) =
     [- 2000]"
  by code_simp

subsection \<open>Rounding of the stored totals\<close>

text \<open>
  Claim C5, at an input where the code departs from it. One item of 9.99 with a
  discount of 5 percent and a tax rate of 5 percent: the computation carries the
  unrounded discount 0.4995 into the tax (0.474525) and into the total (9.965025),
  and each number is rounded only when it is stored. The row holds a discount of
  0.50, a tax of 0.47 and a total of 9.97, while 9.99 - 0.50 + 0.47 is 9.96, the
  total that results when each step uses the rounded value of the step before.
\<close>

theorem totals_rounded_only_when_stored:
  "fst (createInvoice 1 discountedInvoice 1 emptyDb) = Inr (invoices dbDiscounted) \<and>
   map subtotal (invoices dbDiscounted) = [999] \<and>
   map discountAmount (invoices dbDiscounted) = [50] \<and>
   map taxAmount (invoices dbDiscounted) = [47] \<and>
   map total (invoices dbDiscounted) = [997] \<and>
   toDecimal2 ((Number 999 - Number 50) * (Number 500 / 100)) = 47 \<and>
   toDecimal2 (Number 999 - Number 50 + Number 47) = 996"
  by code_simp

subsection \<open>The time of payment\<close>

text \<open>
  Claim C7, at an input where the code departs from it. An invoice of 100.00 is
  paid in full at time 2, which sets \<open>paidAt\<close> to 2. A further payment of 50.00 at
  time 3 finds the invoice already \<open>Paid\<close>; the handler writes \<open>paidAt\<close> whenever the
  new status is \<open>Paid\<close>, so \<open>paidAt\<close> becomes 3.
\<close>

theorem further_payment_resets_paidAt:
  "map status (invoices dbPaid) = [Paid] \<and>
   map paidAt (invoices dbPaid) = [Some 2] \<and>
   map_sum id payment_amount (fst (addPayment 1 100 50 3 dbPaid)) = Inr 5000 \<and>
   map status (invoices (snd (addPayment 1 100 50 3 dbPaid))) = [Paid] \<and>
   map paidAt (invoices (snd (addPayment 1 100 50 3 dbPaid))) = [Some 3]"
  by code_simp

subsection \<open>Numbers consumed by failed creations\<close>

text \<open>
  Claim C8, at an input where the code departs from it. The first request of a
  new user carries an item without a description: the validators let it pass, the
  insert of the item violates \<^verbatim>\<open>notNull\<close>, and the transaction rolls the invoice
  back. The increment of the sequence was committed outside the transaction, so
  the next request, which succeeds, is numbered INV0002 and the user's invoices
  start with a gap.
\<close>

theorem failed_creation_consumes_number:
  "validCreate undescribedInvoice \<and>
   fst (createInvoice 1 undescribedInvoice 1 emptyDb) = Inl DatabaseError \<and>
   invoices (snd (createInvoice 1 undescribedInvoice 1 emptyDb)) = [] \<and>
   invoiceItems (snd (createInvoice 1 undescribedInvoice 1 emptyDb)) = [] \<and>
   map nextNumber (invoiceSequences (snd (createInvoice 1 undescribedInvoice 1 emptyDb))) = [2] \<and>
   map_sum id (map invoiceNumber)
     (fst (createInvoice 1 (plainInvoice 100) 2
        (snd (createInvoice 1 undescribedInvoice 1 emptyDb)))) = Inr [''INV0002''] \<and>
   map invoiceNumber
     (invoices (snd (createInvoice 1 (plainInvoice 100) 2
        (snd (createInvoice 1 undescribedInvoice 1 emptyDb))))) = [''INV0002'']"
  by code_simp

subsection \<open>Allocation of invoice numbers\<close>











subsection \<open>Status changes\<close>

lemma statusFields_fields [simp]:
  "inv_id (statusFields e s t v) = inv_id v"
  "userId (statusFields e s t v) = userId v"
  "status (statusFields e s t v) = s"
  "amountPaid (statusFields e s t v) = (if s = Paid \<and> paidAt e = None then total e else amountPaid v)"
  by (simp_all add: statusFields_def Let_def)

lemma filter_map_owned:
  assumes "\<And>v. inv_id (f v) = inv_id v" "\<And>v. userId (f v) = userId v"
  shows "filter (\<lambda>v. inv_id v = i \<and> userId v = u)
           (map (\<lambda>v. if inv_id v = i \<and> userId v = u then f v else v) xs) =
         map f (filter (\<lambda>v. inv_id v = i \<and> userId v = u) xs)"
  by (induction xs) (auto simp: assms)

text \<open>
  Claim C2, as amended. \<open>setStatus\<close> validates no transition. For an invoice of
  the requesting user it succeeds for every requested status, whatever the current
  one, and the stored status is the requested one; the response is the updated
  row. It fails only when the user has no invoice with that identifier, with
  \<open>NotFoundError\<close> and an unchanged database.
\<close>

theorem setStatus_accepts_every_status:
  "(findInvoice db i u = [] \<longrightarrow> setStatus u i s t db = (Inl NotFoundError, db)) \<and>
   (findInvoice db i u \<noteq> [] \<longrightarrow>
      fst (setStatus u i s t db) =
        Inr (take 1 (filter (\<lambda>v. inv_id v = i \<and> userId v = u)
                       (invoices (snd (setStatus u i s t db))))) \<and>
      filter (\<lambda>v. inv_id v = i \<and> userId v = u) (invoices (snd (setStatus u i s t db))) \<noteq> [] \<and>
      list_all (\<lambda>v. status v = s)
        (filter (\<lambda>v. inv_id v = i \<and> userId v = u) (invoices (snd (setStatus u i s t db)))))"
proof (intro conjI impI)
  assume "findInvoice db i u = []"
  then show "setStatus u i s t db = (Inl NotFoundError, db)"
    by (simp add: setStatus_def)
next
  assume ne: "findInvoice db i u \<noteq> []"
  then obtain e rest where e: "findInvoice db i u = e # rest"
    by (cases "findInvoice db i u") auto
  from ne have rows: "filter (\<lambda>v. inv_id v = i \<and> userId v = u) (invoices db) \<noteq> []"
    by (auto simp: findInvoice_def)
  have after: "filter (\<lambda>v. inv_id v = i \<and> userId v = u) (invoices (snd (setStatus u i s t db))) =
      map (statusFields e s t) (filter (\<lambda>v. inv_id v = i \<and> userId v = u) (invoices db))"
    by (simp add: setStatus_def e Let_def filter_map_owned)
  show "fst (setStatus u i s t db) =
        Inr (take 1 (filter (\<lambda>v. inv_id v = i \<and> userId v = u)
                       (invoices (snd (setStatus u i s t db)))))"
    by (simp add: setStatus_def e Let_def)
  show "filter (\<lambda>v. inv_id v = i \<and> userId v = u) (invoices (snd (setStatus u i s t db))) \<noteq> []"
    unfolding after using rows by simp
  show "list_all (\<lambda>v. status v = s)
        (filter (\<lambda>v. inv_id v = i \<and> userId v = u) (invoices (snd (setStatus u i s t db))))"
    unfolding after by (simp add: list_all_iff)
qed

theorem setStatus_accepts_every_status_witness:
  "findInvoice db100 100 2 = [] \<and> setStatus 2 100 Paid 5 db100 = (Inl NotFoundError, db100) \<and>
   findInvoice dbCancelled 100 1 \<noteq> [] \<and>
   fst (setStatus 1 100 Sent 5 dbCancelled) =
     Inr (take 1 (filter (\<lambda>v. inv_id v = 100 \<and> userId v = 1)
                    (invoices (snd (setStatus 1 100 Sent 5 dbCancelled))))) \<and>
   filter (\<lambda>v. inv_id v = 100 \<and> userId v = 1) (invoices (snd (setStatus 1 100 Sent 5 dbCancelled))) \<noteq> [] \<and>
   list_all (\<lambda>v. status v = Sent)
     (filter (\<lambda>v. inv_id v = 100 \<and> userId v = 1) (invoices (snd (setStatus 1 100 Sent 5 dbCancelled))))"
proof -
  have h1: "findInvoice db100 100 2 = []" by code_simp
  have h2: "findInvoice dbCancelled 100 1 \<noteq> []" by code_simp
  from setStatus_accepts_every_status [of db100 100 2 Paid 5]
    setStatus_accepts_every_status [of dbCancelled 100 1 Sent 5] h1 h2
  show ?thesis by blast
qed

text \<open>
  The claim as stated fails: a cancelled invoice is set back to \<open>Draft\<close>, and a paid
  invoice is set to \<open>Cancelled\<close>; both requests succeed.
\<close>

theorem setStatus_leaves_terminal_states:
  "map status (invoices dbCancelled) = [Cancelled] \<and>
   map_sum id (map status) (fst (setStatus 1 100 Draft 3 dbCancelled)) = Inr [Draft] \<and>
   map status (invoices (snd (setStatus 1 100 Draft 3 dbCancelled))) = [Draft] \<and>
   map status (invoices dbPaid) = [Paid] \<and>
   map_sum id (map status) (fst (setStatus 1 100 Cancelled 3 dbPaid)) = Inr [Cancelled] \<and>
   map status (invoices (snd (setStatus 1 100 Cancelled 3 dbPaid))) = [Cancelled]"
  by code_simp

subsection \<open>Totals without a clamp\<close>






subsection \<open>Transactions\<close>










subsection \<open>Amount paid and the payment rows\<close>
















end
